theory Spec2Isabelle
  imports Complex_Main "HOL-Library.AList"
begin

section \<open>Python values, errors and dictionaries\<close>

text \<open>
  The values that reach the functions of \<^verbatim>\<open>swapi.py\<close>: CSV and JSON data (strings,
  numbers, \<^verbatim>\<open>None\<close>, lists, nested dictionaries with string keys). A finite float is
  denoted by its exact rational value; \<^verbatim>\<open>nan\<close> and the infinities are outside the model.
  Strings are byte strings (ASCII data).
\<close>

datatype pyval =
    PNone
  | PBool bool
  | PInt int
  | PFloat rat
  | PStr string
  | PList "pyval list"
  | PDict "(string \<times> pyval) list"

text \<open>Every raise of the source is a value of this type.\<close>

datatype error = TypeError | ValueError | KeyError | IndexError | AttributeError | RequestError

text \<open>
  A dictionary with string keys (a CSV row, a JSON object, the \<^verbatim>\<open>__dict__\<close> of an
  instance) in insertion order. Python keeps the keys distinct.
\<close>

type_synonym pydict = "(string \<times> pyval) list"

definition getitem :: "pydict \<Rightarrow> string \<Rightarrow> error + pyval" where
  \<comment> \<open>\<^verbatim>\<open>d[k]\<close>: KeyError on a missing key\<close>
  "getitem d k = (case map_of d k of None \<Rightarrow> Inl KeyError | Some v \<Rightarrow> Inr v)"

definition setitem :: "pydict \<Rightarrow> string \<Rightarrow> pyval \<Rightarrow> pydict" where
  \<comment> \<open>\<^verbatim>\<open>d[k] = v\<close>: overwrite in place, or append a new key\<close>
  "setitem d k v = AList.update k v d"

definition getattr :: "pydict \<Rightarrow> string \<Rightarrow> error + pyval" where
  \<comment> \<open>\<^verbatim>\<open>getattr(obj, name)\<close> with no default, on the instance dictionary\<close>
  "getattr self name = (case map_of self name of None \<Rightarrow> Inl AttributeError | Some v \<Rightarrow> Inr v)"

definition setattr :: "pydict \<Rightarrow> string \<Rightarrow> pyval \<Rightarrow> pydict" where
  "setattr self name v = AList.update name v self"

section \<open>Built-ins and the helper module\<close>

text \<open>
  What the code takes from outside \<^verbatim>\<open>swapi.py\<close> and what is not modelled digit by digit:
  the parsers behind \<^verbatim>\<open>int(s)\<close> and \<^verbatim>\<open>float(s)\<close> on a string (\<open>None\<close> where Python
  raises ValueError), the tuple of placeholder strings of the helper module, its gravity
  conversion and its HTTP lookup.
\<close>

record env =
  int_of_str :: "string \<Rightarrow> int option"
  float_of_str :: "string \<Rightarrow> rat option"
  NONE_VALUES :: "string list"
  convert_gravity_value :: "pyval \<Rightarrow> pyval"
  get_swapi_resource :: "pyval \<Rightarrow> error + pyval"

definition is_space :: "char \<Rightarrow> bool" where
  "is_space c = ((of_char c :: nat) \<in> {9, 10, 11, 12, 13, 28, 29, 30, 31, 32})"

definition strip :: "string \<Rightarrow> string" where
  \<comment> \<open>\<^verbatim>\<open>s.strip()\<close>\<close>
  "strip s = rev (dropWhile is_space (rev (dropWhile is_space s)))"

definition lower_char :: "char \<Rightarrow> char" where
  "lower_char c = (let n = (of_char c :: nat) in if 65 \<le> n \<and> n \<le> 90 then char_of (n + 32) else c)"

definition lower :: "string \<Rightarrow> string" where
  \<comment> \<open>\<^verbatim>\<open>s.lower()\<close> on ASCII\<close>
  "lower s = map lower_char s"

definition trunc :: "rat \<Rightarrow> int" where
  \<comment> \<open>\<^verbatim>\<open>int(x)\<close> on a float rounds towards zero\<close>
  "trunc x = (if 0 \<le> x then \<lfloor>x\<rfloor> else \<lceil>x\<rceil>)"

fun py_int :: "env \<Rightarrow> pyval \<Rightarrow> error + pyval" where
  \<comment> \<open>the built-in \<^verbatim>\<open>int(v)\<close>\<close>
  "py_int E (PInt i) = Inr (PInt i)"
| "py_int E (PBool b) = Inr (PInt (if b then 1 else 0))"
| "py_int E (PFloat x) = Inr (PInt (trunc x))"
| "py_int E (PStr s) = (case int_of_str E s of None \<Rightarrow> Inl ValueError | Some i \<Rightarrow> Inr (PInt i))"
| "py_int E PNone = Inl TypeError"
| "py_int E (PList xs) = Inl TypeError"
| "py_int E (PDict d) = Inl TypeError"

fun py_float :: "env \<Rightarrow> pyval \<Rightarrow> error + pyval" where
  \<comment> \<open>the built-in \<^verbatim>\<open>float(v)\<close>\<close>
  "py_float E (PFloat x) = Inr (PFloat x)"
| "py_float E (PInt i) = Inr (PFloat (of_int i))"
| "py_float E (PBool b) = Inr (PFloat (if b then 1 else 0))"
| "py_float E (PStr s) = (case float_of_str E s of None \<Rightarrow> Inl ValueError | Some x \<Rightarrow> Inr (PFloat x))"
| "py_float E PNone = Inl TypeError"
| "py_float E (PList xs) = Inl TypeError"
| "py_float E (PDict d) = Inl TypeError"

fun split_go :: "string \<Rightarrow> string \<Rightarrow> string \<Rightarrow> string list" where
  "split_go sep cur [] = [cur]"
| "split_go sep cur (c # cs) =
     (if sep \<noteq> [] \<and> take (length sep) (c # cs) = sep
      then cur # split_go sep [] (drop (length sep) (c # cs))
      else split_go sep (cur @ [c]) cs)"

definition py_split :: "string \<Rightarrow> string \<Rightarrow> error + string list" where
  \<comment> \<open>\<^verbatim>\<open>s.split(sep)\<close>: ValueError on the empty separator\<close>
  "py_split s sep = (if sep = [] then Inl ValueError else Inr (split_go sep [] s))"

text \<open>
  Modelled from the spec: the module \<^verbatim>\<open>sw_utils\<close> (imported as \<^verbatim>\<open>utl\<close>) is not part of
  the sources. Its conversion helpers ``silently fall back to the original value (or
  \<^verbatim>\<open>None\<close>) on conversion failure instead of raising''; the comments of \<^verbatim>\<open>main\<close> record
  \<^verbatim>\<open>convert_to_none('Unknown')\<close> as \<^verbatim>\<open>None\<close>, \<^verbatim>\<open>convert_to_none('Yoda')\<close> and
  \<^verbatim>\<open>convert_to_none([1, 2, 3])\<close> as unchanged. A string is a placeholder when its
  lower-cased, stripped form is one of \<^verbatim>\<open>NONE_VALUES\<close>.
\<close>

definition none_like :: "env \<Rightarrow> string \<Rightarrow> bool" where
  "none_like E s = (strip (lower s) \<in> set (NONE_VALUES E))"

fun convert_to_none :: "env \<Rightarrow> pyval \<Rightarrow> pyval" where
  "convert_to_none E (PStr s) = (if none_like E s then PNone else PStr s)"
| "convert_to_none E v = v"

text \<open>
  Modelled from the spec: \<^verbatim>\<open>utl.convert_to_int\<close>, \<^verbatim>\<open>utl.convert_to_float\<close> and
  \<^verbatim>\<open>utl.convert_to_list\<close> are missing from the sources; each tries the built-in conversion
  and returns its argument unchanged when that raises.
\<close>

definition convert_to_int :: "env \<Rightarrow> pyval \<Rightarrow> pyval" where
  "convert_to_int E v = (case py_int E v of Inl e \<Rightarrow> v | Inr r \<Rightarrow> r)"

definition convert_to_float :: "env \<Rightarrow> pyval \<Rightarrow> pyval" where
  "convert_to_float E v = (case py_float E v of Inl e \<Rightarrow> v | Inr r \<Rightarrow> r)"

fun convert_to_list :: "pyval \<Rightarrow> string \<Rightarrow> pyval" where
  "convert_to_list (PStr s) sep =
     (case py_split s sep of Inl e \<Rightarrow> PStr s | Inr parts \<Rightarrow> PList (map PStr parts))"
| "convert_to_list v sep = v"

section \<open>The classes Droid and Person\<close>

text \<open>An instance is its \<^verbatim>\<open>__dict__\<close>; \<^verbatim>\<open>__init__\<close> sets the required attributes only.\<close>

definition Droid_init :: "pyval \<Rightarrow> pyval \<Rightarrow> pyval \<Rightarrow> pydict" where
  "Droid_init url name model = [(''url'', url), (''name'', name), (''model'', model)]"

definition Person_init :: "pyval \<Rightarrow> pyval \<Rightarrow> pyval \<Rightarrow> pyval \<Rightarrow> pydict" where
  "Person_init url name birth_year force_sensitive =
     [(''url'', url), (''name'', name), (''birth_year'', birth_year),
      (''force_sensitive'', force_sensitive)]"

definition Planet_init :: "pyval \<Rightarrow> pyval \<Rightarrow> pydict" where
  "Planet_init url name = [(''url'', url), (''name'', name)]"

fun jsonable_loop :: "pydict \<Rightarrow> string list \<Rightarrow> pydict \<Rightarrow> error + pydict" where
  \<comment> \<open>\<^verbatim>\<open>for key in keys: result[key] = getattr(self, key)\<close>\<close>
  "jsonable_loop self [] result = Inr result"
| "jsonable_loop self (key # keys) result =
     (case getattr self key of
        Inl e \<Rightarrow> Inl e
      | Inr v \<Rightarrow> jsonable_loop self keys (setitem result key v))"

definition Droid_keys :: "string list" where
  "Droid_keys = [''url'', ''name'', ''model'', ''manufacturer'', ''create_year'', ''height_m'',
                 ''mass_kg'', ''equipment'']"

definition Droid_jsonable :: "pydict \<Rightarrow> error + pydict" where
  "Droid_jsonable self = jsonable_loop self Droid_keys []"

definition Person_keys :: "string list" where
  "Person_keys = [''url'', ''name'', ''birth_year'', ''height_m'', ''mass_kg'', ''homeworld'',
                  ''force_sensitive'']"

definition Person_jsonable :: "pydict \<Rightarrow> error + pydict" where
  "Person_jsonable self = jsonable_loop self Person_keys []"

definition Planet_keys :: "string list" where
  "Planet_keys = [''url'', ''name'', ''region'', ''sector'', ''suns'', ''moons'',
                  ''orbital_period_days'', ''diameter_km'', ''gravity_std'', ''climate'',
                  ''terrain'', ''population'']"

definition Planet_jsonable :: "pydict \<Rightarrow> error + pydict" where
  "Planet_jsonable self = jsonable_loop self Planet_keys []"

section \<open>Record construction\<close>

text \<open>
  The conversion loop shared by the factory functions and \<^verbatim>\<open>convert_episode_values\<close>:
  \<^verbatim>\<open>for key in keys: data[key] = f(key, data[key])\<close>, where reading a missing key raises
  KeyError and \<open>f\<close> may raise.
\<close>

fun convert_loop ::
  "(string \<Rightarrow> pyval \<Rightarrow> error + pyval) \<Rightarrow> string list \<Rightarrow> pydict \<Rightarrow> error + pydict" where
  "convert_loop f [] data = Inr data"
| "convert_loop f (key # keys) data =
     (case getitem data key of
        Inl e \<Rightarrow> Inl e
      | Inr v \<Rightarrow>
          (case f key v of
             Inl e \<Rightarrow> Inl e
           | Inr v' \<Rightarrow> convert_loop f keys (setitem data key v')))"

text \<open>
  The second loop of a factory function, \<^verbatim>\<open>for key in keys: <body>\<close>, where the body sets one
  attribute of the new instance and may raise.
\<close>

fun assign_loop ::
  "(string \<Rightarrow> pydict \<Rightarrow> error + pydict) \<Rightarrow> string list \<Rightarrow> pydict \<Rightarrow> error + pydict" where
  "assign_loop body [] obj = Inr obj"
| "assign_loop body (key # keys) obj =
     (case body key obj of
        Inl e \<Rightarrow> Inl e
      | Inr obj' \<Rightarrow> assign_loop body keys obj')"

subsection \<open>create_planet\<close>

definition create_planet_keys :: "string list" where
  "create_planet_keys = [''url'', ''name'', ''region'', ''sector'', ''suns'', ''moons'',
     ''orbital_period'', ''diameter'', ''gravity'', ''climate'', ''terrain'', ''population'']"

definition planet_field :: "env \<Rightarrow> string \<Rightarrow> pyval \<Rightarrow> pyval" where
  "planet_field E key v =
     (let v1 = convert_to_none E v in
      if v1 = PNone then v1
      else
        let v2 = (if key = ''suns'' \<or> key = ''moons'' \<or> key = ''diameter'' \<or> key = ''population''
                  then convert_to_int E v1 else v1);
            v3 = (if key = ''climate'' \<or> key = ''terrain'' then convert_to_list v2 '', '' else v2);
            v4 = (if key = ''orbital_period_days'' then convert_to_float E v3 else v3);
            v5 = (if key = ''gravity'' then convert_gravity_value E v4 else v4)
        in v5)"

definition planet_assign :: "env \<Rightarrow> pydict \<Rightarrow> string \<Rightarrow> pydict \<Rightarrow> error + pydict" where
  "planet_assign E data key planet =
     (case getitem data key of
        Inl e \<Rightarrow> Inl e
      | Inr v \<Rightarrow>
          Inr (if key = ''orbital_period'' then setattr planet ''orbital_period_days'' (convert_to_float E v)
               else if key = ''diameter'' then setattr planet ''diameter_km'' v
               else if key = ''gravity'' then setattr planet ''gravity_std'' v
               else setattr planet key v))"

definition create_planet :: "env \<Rightarrow> pydict \<Rightarrow> error + pydict" where
  "create_planet E data =
     (case convert_loop (\<lambda>key v. Inr (planet_field E key v)) create_planet_keys data of
        Inl e \<Rightarrow> Inl e
      | Inr data' \<Rightarrow>
          (case getitem data' ''url'' of
             Inl e \<Rightarrow> Inl e
           | Inr url \<Rightarrow>
               (case getitem data' ''name'' of
                  Inl e \<Rightarrow> Inl e
                | Inr name \<Rightarrow> assign_loop (planet_assign E data') create_planet_keys (Planet_init url name))))"

subsection \<open>create_droid\<close>

definition create_droid_keys :: "string list" where
  "create_droid_keys = [''url'', ''name'', ''model'', ''manufacturer'', ''create_year'', ''height'',
     ''mass'', ''equipment'']"

definition droid_field :: "env \<Rightarrow> string \<Rightarrow> pyval \<Rightarrow> pyval" where
  "droid_field E key v =
     (let v1 = convert_to_none E v in
      if v1 = PNone then v1
      else
        let v2 = (if key = ''height'' \<or> key = ''mass'' then convert_to_float E v1 else v1);
            v3 = (if key = ''equipment'' then convert_to_list v2 ''|'' else v2)
        in v3)"

definition droid_assign :: "env \<Rightarrow> pydict \<Rightarrow> string \<Rightarrow> pydict \<Rightarrow> error + pydict" where
  "droid_assign E data key droid =
     (case getitem data key of
        Inl e \<Rightarrow> Inl e
      | Inr v \<Rightarrow>
          Inr (if key = ''height'' then setattr droid ''height_m'' (convert_to_float E v)
               else if key = ''mass'' then setattr droid ''mass_kg'' v
               else setattr droid key v))"

definition create_droid :: "env \<Rightarrow> pydict \<Rightarrow> error + pydict" where
  "create_droid E data =
     (case convert_loop (\<lambda>key v. Inr (droid_field E key v)) create_droid_keys data of
        Inl e \<Rightarrow> Inl e
      | Inr data' \<Rightarrow>
          (case getitem data' ''url'' of
             Inl e \<Rightarrow> Inl e
           | Inr url \<Rightarrow>
               (case getitem data' ''name'' of
                  Inl e \<Rightarrow> Inl e
                | Inr name \<Rightarrow>
                    (case getitem data' ''model'' of
                       Inl e \<Rightarrow> Inl e
                     | Inr model \<Rightarrow>
                         assign_loop (droid_assign E data') create_droid_keys (Droid_init url name model)))))"

subsection \<open>create_person\<close>

definition create_person_keys :: "string list" where
  "create_person_keys = [''url'', ''name'', ''birth_year'', ''height'', ''mass'', ''homeworld'',
     ''force_sensitive'']"

definition person_field :: "env \<Rightarrow> string \<Rightarrow> pyval \<Rightarrow> pyval" where
  "person_field E key v =
     (let v1 = convert_to_none E v in
      if v1 = PNone then v1
      else if key = ''height'' \<or> key = ''mass'' then convert_to_float E v1 else v1)"

text \<open>
  The optional argument \<^verbatim>\<open>planets\<close>: \<open>None\<close> is the declared default \<^verbatim>\<open>planets=None\<close>,
  otherwise the list of supplemental planet rows. \<^verbatim>\<open>planets[12]\<close> raises TypeError on
  \<^verbatim>\<open>None\<close> and IndexError on a list of fewer than thirteen rows.
\<close>

definition planets_12 :: "pydict list option \<Rightarrow> error + pydict" where
  "planets_12 planets =
     (case planets of
        None \<Rightarrow> Inl TypeError
      | Some rows \<Rightarrow> if 12 < length rows then Inr (rows ! 12) else Inl IndexError)"

definition homeworld :: "env \<Rightarrow> pydict list option \<Rightarrow> pyval \<Rightarrow> error + pyval" where
  \<comment> \<open>the \<^verbatim>\<open>elif key == 'homeworld'\<close> branch: look the planet up, overlay row 12 of
      \<^verbatim>\<open>planets\<close>, build the Planet and serialise it; a looked-up value that is not a
      dictionary supports neither item assignment nor \<^verbatim>\<open>data['url']\<close> (TypeError)\<close>
  "homeworld E planets v =
     (case get_swapi_resource E v of
        Inl e \<Rightarrow> Inl e
      | Inr tatooine_data \<Rightarrow>
          (case planets_12 planets of
             Inl e \<Rightarrow> Inl e
           | Inr row \<Rightarrow>
               (case tatooine_data of
                  PDict t \<Rightarrow>
                    (case create_planet E (fold (\<lambda>kv d. setitem d (fst kv) (snd kv)) row t) of
                       Inl e \<Rightarrow> Inl e
                     | Inr tatooine \<Rightarrow>
                         (case Planet_jsonable tatooine of
                            Inl e \<Rightarrow> Inl e
                          | Inr j \<Rightarrow> Inr (PDict j)))
                | _ \<Rightarrow> Inl TypeError)))"

definition person_assign ::
  "env \<Rightarrow> pydict list option \<Rightarrow> pydict \<Rightarrow> string \<Rightarrow> pydict \<Rightarrow> error + pydict" where
  "person_assign E planets data key person =
     (case getitem data key of
        Inl e \<Rightarrow> Inl e
      | Inr v \<Rightarrow>
          if key = ''height'' then Inr (setattr person ''height_m'' (convert_to_float E v))
          else if key = ''mass'' then Inr (setattr person ''mass_kg'' (convert_to_float E v))
          else if key = ''homeworld'' then
            (case homeworld E planets v of
               Inl e \<Rightarrow> Inl e
             | Inr h \<Rightarrow> Inr (setattr person ''homeworld'' h))
          else Inr (setattr person key v))"

definition create_person :: "env \<Rightarrow> pydict \<Rightarrow> pydict list option \<Rightarrow> error + pydict" where
  "create_person E data planets =
     (case convert_loop (\<lambda>key v. Inr (person_field E key v)) create_person_keys data of
        Inl e \<Rightarrow> Inl e
      | Inr data' \<Rightarrow>
          (case getitem data' ''url'' of
             Inl e \<Rightarrow> Inl e
           | Inr url \<Rightarrow>
               (case getitem data' ''name'' of
                  Inl e \<Rightarrow> Inl e
                | Inr name \<Rightarrow>
                    (case getitem data' ''birth_year'' of
                       Inl e \<Rightarrow> Inl e
                     | Inr birth_year \<Rightarrow>
                         (case getitem data' ''force_sensitive'' of
                            Inl e \<Rightarrow> Inl e
                          | Inr force_sensitive \<Rightarrow>
                              assign_loop (person_assign E planets data') create_person_keys
                                (Person_init url name birth_year force_sensitive))))))"

subsection \<open>create_starship\<close>

definition create_starship_keys :: "string list" where
  "create_starship_keys = [''url'', ''name'', ''model'', ''starship_class'', ''manufacturer'',
     ''length'', ''max_atmosphering_speed'', ''hyperdrive_rating'', ''MGLT'', ''armament'', ''crew'',
     ''passengers'', ''cargo_capacity'', ''consumables'']"

definition Starship_init :: "pyval \<Rightarrow> pyval \<Rightarrow> pyval \<Rightarrow> pyval \<Rightarrow> pydict" where
  "Starship_init url name model starship_class =
     [(''url'', url), (''name'', name), (''model'', model), (''starship_class'', starship_class),
      (''MGLT'', PNone), (''crew_members'', PNone), (''passengers_on_board'', PNone)]"

definition starship_field :: "env \<Rightarrow> string \<Rightarrow> pyval \<Rightarrow> error + pyval" where
  \<comment> \<open>the two numeric fields go through the built-in \<^verbatim>\<open>int\<close>, which raises; the condition
      \<^verbatim>\<open>key == 'length_m' or 'hyperdrive_rating'\<close> holds for every key, its second operand
      being a non-empty string\<close>
  "starship_field E key v =
     (let v1 = convert_to_none E v in
      if v1 = PNone then Inr v1
      else
        (case (if key = ''max_atmosphering_speed'' \<or> key = ''cargo_capacity''
               then py_int E v1 else Inr v1) of
           Inl e \<Rightarrow> Inl e
         | Inr v2 \<Rightarrow>
             let v3 = (if key = ''armament'' then convert_to_list v2 '','' else v2);
                 v4 = (if key = ''length_m'' \<or> ''hyperdrive_rating'' \<noteq> []
                       then convert_to_float E v3 else v3)
             in Inr v4))"

definition starship_assign :: "env \<Rightarrow> pydict \<Rightarrow> string \<Rightarrow> pydict \<Rightarrow> error + pydict" where
  \<comment> \<open>the branches for \<^verbatim>\<open>MGLT\<close>, \<^verbatim>\<open>crew\<close> and \<^verbatim>\<open>passengers\<close> do not read \<^verbatim>\<open>data\<close>\<close>
  "starship_assign E data key starship =
     (if key = ''length'' then
        (case getitem data key of
           Inl e \<Rightarrow> Inl e
         | Inr v \<Rightarrow> Inr (setattr starship ''length_m'' v))
      else if key = ''MGLT'' then Inr (setattr starship ''MGLT'' PNone)
      else if key = ''crew'' then Inr (setattr starship ''crew_members'' PNone)
      else if key = ''passengers'' then Inr (setattr starship ''passengers_on_board'' PNone)
      else if key = ''cargo_capacity'' then
        (case getitem data key of
           Inl e \<Rightarrow> Inl e
         | Inr v \<Rightarrow>
             (case py_int E v of
                Inl e \<Rightarrow> Inl e
              | Inr i \<Rightarrow> Inr (setattr starship ''cargo_capacity_kg'' i)))
      else if key = ''max_atmosphering_speed'' then
        (case getitem data key of
           Inl e \<Rightarrow> Inl e
         | Inr v \<Rightarrow>
             (case py_int E v of
                Inl e \<Rightarrow> Inl e
              | Inr i \<Rightarrow> Inr (setattr starship ''max_atmosphering_speed'' i)))
      else
        (case getitem data key of
           Inl e \<Rightarrow> Inl e
         | Inr v \<Rightarrow> Inr (setattr starship key v)))"

definition create_starship :: "env \<Rightarrow> pydict \<Rightarrow> error + pydict" where
  "create_starship E data =
     (case convert_loop (starship_field E) create_starship_keys data of
        Inl e \<Rightarrow> Inl e
      | Inr data' \<Rightarrow>
          (case getitem data' ''url'' of
             Inl e \<Rightarrow> Inl e
           | Inr url \<Rightarrow>
               (case getitem data' ''name'' of
                  Inl e \<Rightarrow> Inl e
                | Inr name \<Rightarrow>
                    (case getitem data' ''model'' of
                       Inl e \<Rightarrow> Inl e
                     | Inr model \<Rightarrow>
                         (case getitem data' ''starship_class'' of
                            Inl e \<Rightarrow> Inl e
                          | Inr starship_class \<Rightarrow>
                              assign_loop (starship_assign E data') create_starship_keys
                                (Starship_init url name model starship_class))))))"

subsection \<open>convert_episode_values\<close>

definition episode_field :: "env \<Rightarrow> string \<Rightarrow> pyval \<Rightarrow> pyval" where
  "episode_field E key v =
     (let v1 = convert_to_none E v in
      if v1 = PStr [] then PNone
      else
        let v2 = (if key = ''series_season_num'' \<or> key = ''series_episode_num''
                     \<or> key = ''season_episode_num''
                  then convert_to_int E v1 else v1);
            v3 = (if key = ''episode_prod_code'' \<or> key = ''episode_us_viewers_mm''
                  then convert_to_float E v2 else v2);
            v4 = (if key = ''episode_writers'' then convert_to_list v3 '', '' else v3)
        in v4)"

definition convert_episode :: "env \<Rightarrow> pydict \<Rightarrow> error + pydict" where
  \<comment> \<open>the inner loop \<^verbatim>\<open>for key in episodes[ep]\<close> over the episode's own keys\<close>
  "convert_episode E episode =
     convert_loop (\<lambda>key v. Inr (episode_field E key v)) (map fst episode) episode"

fun convert_episode_values :: "env \<Rightarrow> pydict list \<Rightarrow> error + pydict list" where
  \<comment> \<open>the contents of the returned list; that the list is the argument itself is the subject
      of the store model below\<close>
  "convert_episode_values E [] = Inr []"
| "convert_episode_values E (ep # eps) =
     (case convert_episode E ep of
        Inl e \<Rightarrow> Inl e
      | Inr ep' \<Rightarrow>
          (case convert_episode_values E eps of
             Inl e \<Rightarrow> Inl e
           | Inr eps' \<Rightarrow> Inr (ep' # eps')))"

section \<open>Episode aggregation\<close>

text \<open>
  An episode list is a list of dictionaries. The loops run \<^verbatim>\<open>for ep in range(len(episodes))\<close>
  and read \<^verbatim>\<open>episodes[ep]\<close>, which visits the elements in order.
\<close>

fun hashable :: "pyval \<Rightarrow> bool" where
  "hashable (PList xs) = False"
| "hashable (PDict d) = False"
| "hashable v = True"

fun count_loop :: "pydict list \<Rightarrow> (pyval \<times> int) list \<Rightarrow> error + (pyval \<times> int) list" where
  "count_loop [] result = Inr result"
| "count_loop (ep # eps) result =
     (case getitem ep ''episode_director'' of
        Inl e \<Rightarrow> Inl e
      | Inr d \<Rightarrow>
          if \<not> hashable d then Inl TypeError
          else (case map_of result d of
                  Some c \<Rightarrow> count_loop eps (AList.update d (c + 1) result)
                | None \<Rightarrow> count_loop eps (AList.update d 1 result)))"

definition count_episodes_by_director :: "pydict list \<Rightarrow> error + (pyval \<times> int) list" where
  "count_episodes_by_director episodes = count_loop episodes []"

fun py_iter :: "pyval \<Rightarrow> error + pyval list" where
  \<comment> \<open>the elements a \<^verbatim>\<open>for\<close> loop visits\<close>
  "py_iter (PList xs) = Inr xs"
| "py_iter (PStr s) = Inr (map (\<lambda>c. PStr [c]) s)"
| "py_iter (PDict d) = Inr (map (\<lambda>kv. PStr (fst kv)) d)"
| "py_iter v = Inl TypeError"

fun group_inner ::
  "pydict \<Rightarrow> pyval list \<Rightarrow> (pyval \<times> pydict list) list \<Rightarrow> error + (pyval \<times> pydict list) list" where
  "group_inner ep [] result = Inr result"
| "group_inner ep (write # ws) result =
     (if \<not> hashable write then Inl TypeError
      else (case map_of result write of
              Some es \<Rightarrow> group_inner ep ws (AList.update write (es @ [ep]) result)
            | None \<Rightarrow> group_inner ep ws (AList.update write [ep] result)))"

fun group_loop ::
  "pydict list \<Rightarrow> (pyval \<times> pydict list) list \<Rightarrow> error + (pyval \<times> pydict list) list" where
  "group_loop [] result = Inr result"
| "group_loop (ep # eps) result =
     (case getitem ep ''episode_writers'' of
        Inl e \<Rightarrow> Inl e
      | Inr w \<Rightarrow>
          (case py_iter w of
             Inl e \<Rightarrow> Inl e
           | Inr ws \<Rightarrow>
               (case group_inner ep ws result of
                  Inl e \<Rightarrow> Inl e
                | Inr result' \<Rightarrow> group_loop eps result')))"

definition group_episodes_by_writer :: "pydict list \<Rightarrow> error + (pyval \<times> pydict list) list" where
  \<comment> \<open>the \<^verbatim>\<open>print\<close> of each writers value goes to standard output and is not part of the result\<close>
  "group_episodes_by_writer episodes = group_loop episodes []"

definition has_viewer_data :: "env \<Rightarrow> pydict \<Rightarrow> error + bool" where
  \<comment> \<open>\<^verbatim>\<open>isinstance(utl.convert_to_float(episode['episode_us_viewers_mm']), float)\<close>\<close>
  "has_viewer_data E episode =
     (case getitem episode ''episode_us_viewers_mm'' of
        Inl e \<Rightarrow> Inl e
      | Inr v \<Rightarrow> Inr (case convert_to_float E v of PFloat x \<Rightarrow> True | _ \<Rightarrow> False))"

fun num_of :: "pyval \<Rightarrow> rat option" where
  "num_of (PBool b) = Some (if b then 1 else 0)"
| "num_of (PInt i) = Some (of_int i)"
| "num_of (PFloat x) = Some x"
| "num_of v = None"

text \<open>
  The comparisons \<^verbatim>\<open>a > b\<close> and \<^verbatim>\<open>a < b\<close> as they occur in the viewership scans: the left
  operand is a float there (the scan checks \<^verbatim>\<open>has_viewer_data\<close> first). A float compares
  with a number; with \<^verbatim>\<open>None\<close>, a string, a list or a dictionary Python raises TypeError.
\<close>

definition float_gt :: "pyval \<Rightarrow> pyval \<Rightarrow> error + bool" where
  "float_gt a b =
     (case (a, num_of b) of
        (PFloat x, Some y) \<Rightarrow> Inr (y < x)
      | _ \<Rightarrow> Inl TypeError)"

definition float_lt :: "pyval \<Rightarrow> pyval \<Rightarrow> error + bool" where
  "float_lt a b =
     (case (a, num_of b) of
        (PFloat x, Some y) \<Rightarrow> Inr (x < y)
      | _ \<Rightarrow> Inl TypeError)"

text \<open>
  The scan over \<^verbatim>\<open>range(len(episodes))\<close>: \<open>ep\<close> is the index of the head of the remaining
  list, \<open>maxi\<close> and \<open>index\<close> are the loop's variables.
\<close>

fun most_loop :: "env \<Rightarrow> pydict list \<Rightarrow> nat \<Rightarrow> pyval \<Rightarrow> nat \<Rightarrow> error + nat" where
  "most_loop E [] ep maxi index = Inr index"
| "most_loop E (e # es) ep maxi index =
     (case has_viewer_data E e of
        Inl err \<Rightarrow> Inl err
      | Inr False \<Rightarrow> most_loop E es (Suc ep) maxi index
      | Inr True \<Rightarrow>
          (case getitem e ''episode_us_viewers_mm'' of
             Inl err \<Rightarrow> Inl err
           | Inr v \<Rightarrow>
               (case float_gt (convert_to_float E v) maxi of
                  Inl err \<Rightarrow> Inl err
                | Inr True \<Rightarrow> most_loop E es (Suc ep) v ep
                | Inr False \<Rightarrow> most_loop E es (Suc ep) maxi index)))"

definition get_most_viewed_episode :: "env \<Rightarrow> pydict list \<Rightarrow> error + pydict" where
  "get_most_viewed_episode E episodes =
     (case episodes of
        [] \<Rightarrow> Inl IndexError
      | e0 # _ \<Rightarrow>
          (case getitem e0 ''episode_us_viewers_mm'' of
             Inl err \<Rightarrow> Inl err
           | Inr maxi \<Rightarrow>
               (case most_loop E episodes 0 maxi 0 of
                  Inl err \<Rightarrow> Inl err
                | Inr index \<Rightarrow>
                    if index < length episodes then Inr (episodes ! index) else Inl IndexError)))"

fun least_loop :: "env \<Rightarrow> pydict list \<Rightarrow> nat \<Rightarrow> pyval \<Rightarrow> nat \<Rightarrow> error + nat" where
  "least_loop E [] ep maxi index = Inr index"
| "least_loop E (e # es) ep maxi index =
     (case has_viewer_data E e of
        Inl err \<Rightarrow> Inl err
      | Inr False \<Rightarrow> least_loop E es (Suc ep) maxi index
      | Inr True \<Rightarrow>
          (case getitem e ''episode_us_viewers_mm'' of
             Inl err \<Rightarrow> Inl err
           | Inr v \<Rightarrow>
               (case float_lt (convert_to_float E v) maxi of
                  Inl err \<Rightarrow> Inl err
                | Inr True \<Rightarrow> least_loop E es (Suc ep) v ep
                | Inr False \<Rightarrow> least_loop E es (Suc ep) maxi index)))"

definition get_least_viewed_episode :: "env \<Rightarrow> pydict list \<Rightarrow> error + pydict" where
  "get_least_viewed_episode E episodes =
     (case episodes of
        [] \<Rightarrow> Inl IndexError
      | e0 # _ \<Rightarrow>
          (case getitem e0 ''episode_us_viewers_mm'' of
             Inl err \<Rightarrow> Inl err
           | Inr maxi \<Rightarrow>
               (case least_loop E episodes 0 maxi 0 of
                  Inl err \<Rightarrow> Inl err
                | Inr index \<Rightarrow>
                    if index < length episodes then Inr (episodes ! index) else Inl IndexError)))"

section \<open>A sample environment\<close>

text \<open>For evaluating the functions on concrete data: decimal digit strings parse as numbers.\<close>

definition digits_val :: "string \<Rightarrow> int option" where
  "digits_val s =
     (if s \<noteq> [] \<and> list_all (\<lambda>c. 48 \<le> (of_char c :: nat) \<and> (of_char c :: nat) \<le> 57) s
      then Some (foldl (\<lambda>a c. 10 * a + (int (of_char c) - 48)) 0 s)
      else None)"

definition sample_env :: env where
  "sample_env =
     \<lparr> int_of_str = digits_val,
       float_of_str = (\<lambda>s. map_option of_int (digits_val s)),
       NONE_VALUES = [[], ''n/a'', ''none'', ''unknown''],
       convert_gravity_value = (\<lambda>v. v),
       get_swapi_resource = (\<lambda>v. Inl RequestError) \<rparr>"

section \<open>Well-formed episodes and sample data\<close>

text \<open>
  The director of an episode row is a string, or \<^verbatim>\<open>None\<close> once a blank value was converted.
\<close>

definition director_ok :: "pydict \<Rightarrow> bool" where
  "director_ok ep =
     (case map_of ep ''episode_director'' of
        Some (PStr s) \<Rightarrow> True
      | Some PNone \<Rightarrow> True
      | _ \<Rightarrow> False)"

definition directed_by :: "pyval \<Rightarrow> pydict list \<Rightarrow> pydict list" where
  "directed_by d episodes = filter (\<lambda>ep. map_of ep ''episode_director'' = Some d) episodes"

definition base :: "(pyval \<times> int) list \<Rightarrow> pyval \<Rightarrow> int" where
  "base acc d = (case map_of acc d of None \<Rightarrow> 0 | Some c \<Rightarrow> c)"

definition ep_a :: pydict where
  "ep_a = [(''episode_title'', PStr ''Ambush''), (''episode_director'', PStr ''Dave Bullock'')]"
definition ep_b :: pydict where
  "ep_b = [(''episode_title'', PStr ''Rising Malevolence''), (''episode_director'', PStr ''Dave Filoni'')]"
definition ep_c :: pydict where
  "ep_c = [(''episode_title'', PStr ''Downfall''), (''episode_director'', PStr ''Dave Bullock'')]"

section \<open>Writers of an episode\<close>

fun is_str :: "pyval \<Rightarrow> bool" where
  "is_str (PStr s) = True"
| "is_str v = False"

definition writers_of :: "pydict \<Rightarrow> pyval list" where
  "writers_of ep = (case map_of ep ''episode_writers'' of Some (PList ws) \<Rightarrow> ws | _ \<Rightarrow> [])"

definition writers_ok :: "pydict \<Rightarrow> bool" where
  "writers_ok ep =
     (case map_of ep ''episode_writers'' of Some (PList ws) \<Rightarrow> list_all is_str ws | _ \<Rightarrow> False)"

definition written_by :: "pyval \<Rightarrow> pydict list \<Rightarrow> pydict list" where
  \<comment> \<open>the episodes whose writers contain \<open>w\<close>, in list order\<close>
  "written_by w episodes = filter (\<lambda>ep. w \<in> set (writers_of ep)) episodes"

definition credits :: "pyval \<Rightarrow> pydict list \<Rightarrow> pydict list" where
  \<comment> \<open>each episode once per occurrence of \<open>w\<close> among its writers, in list order\<close>
  "credits w episodes = concat (map (\<lambda>ep. replicate (count_list (writers_of ep) w) ep) episodes)"

definition gbase :: "(pyval \<times> pydict list) list \<Rightarrow> pyval \<Rightarrow> pydict list" where
  "gbase acc w = (case map_of acc w of None \<Rightarrow> [] | Some es \<Rightarrow> es)"

definition ep_dup :: pydict where
  "ep_dup = [(''episode_title'', PStr ''Ambush''),
             (''episode_writers'', PList [PStr ''Steven Melching'', PStr ''Steven Melching''])]"

definition ep_none :: pydict where
  "ep_none = [(''episode_title'', PStr ''Ambush''), (''episode_us_viewers_mm'', PNone)]"

definition ep_two :: pydict where
  "ep_two = [(''episode_title'', PStr ''Downfall''), (''episode_us_viewers_mm'', PFloat 2)]"

definition ep_w1 :: pydict where
  "ep_w1 = [(''episode_title'', PStr ''Ambush''),
            (''episode_writers'', PList [PStr ''Steven Melching'', PStr ''Henry Gilroy''])]"

definition ep_w2 :: pydict where
  "ep_w2 = [(''episode_title'', PStr ''Rookies''),
            (''episode_writers'', PList [PStr ''Henry Gilroy''])]"

section \<open>A sample starship row\<close>

definition twilight :: pydict where
  "twilight =
     [(''url'', PStr ''u''), (''name'', PStr ''Twilight''), (''model'', PStr ''G9''),
      (''starship_class'', PStr ''freighter''), (''manufacturer'', PStr ''Corellian''),
      (''length'', PStr ''34''), (''max_atmosphering_speed'', PStr ''1050''),
      (''hyperdrive_rating'', PStr ''3''), (''MGLT'', PStr ''n/a''), (''armament'', PStr ''guns''),
      (''crew'', PStr ''2''), (''passengers'', PStr ''6''), (''cargo_capacity'', PStr ''unknown''),
      (''consumables'', PStr ''n/a'')]"

section \<open>Convertible fields and a sample planet row\<close>

text \<open>
  Convertible string values of a source row: a string that is no placeholder and that the
  built-in parser accepts.
\<close>

definition str_field :: "env \<Rightarrow> pydict \<Rightarrow> string \<Rightarrow> string \<Rightarrow> bool" where
  "str_field E data key s = (map_of data key = Some (PStr s) \<and> \<not> none_like E s)"

definition int_field :: "env \<Rightarrow> pydict \<Rightarrow> string \<Rightarrow> int \<Rightarrow> bool" where
  "int_field E data key n =
     (case map_of data key of
        Some (PStr s) \<Rightarrow> \<not> none_like E s \<and> int_of_str E s = Some n
      | _ \<Rightarrow> False)"

definition float_field :: "env \<Rightarrow> pydict \<Rightarrow> string \<Rightarrow> rat \<Rightarrow> bool" where
  "float_field E data key x =
     (case map_of data key of
        Some (PStr s) \<Rightarrow> \<not> none_like E s \<and> float_of_str E s = Some x
      | _ \<Rightarrow> False)"

definition has_keys :: "string list \<Rightarrow> pydict \<Rightarrow> bool" where
  "has_keys keys data = list_all (\<lambda>k. map_of data k \<noteq> None) keys"

definition tatooine :: pydict where
  "tatooine =
     [(''url'', PStr ''u''), (''name'', PStr ''Tatooine''), (''region'', PStr ''Outer Rim''),
      (''sector'', PStr ''Arkanis''), (''suns'', PStr ''2''), (''moons'', PStr ''3''),
      (''orbital_period'', PStr ''304''), (''diameter'', PStr ''10465''),
      (''gravity'', PStr ''1 standard''), (''climate'', PStr ''arid, hot''),
      (''terrain'', PStr ''desert''), (''population'', PStr ''200000'')]"

section \<open>Serialising a bare instance\<close>

lemma jsonable_loop_ok_iff:
  "(\<exists>r. jsonable_loop self keys acc = Inr r) \<longleftrightarrow> set keys \<subseteq> fst ` set self"
proof (induction keys arbitrary: acc)
  case Nil
  show ?case by simp
next
  case (Cons k ks)
  show ?case
  proof (cases "map_of self k")
    case None
    then have "k \<notin> fst ` set self" by (simp add: map_of_eq_None_iff)
    with None show ?thesis by (auto simp: getattr_def)
  next
    case (Some v)
    then have "(k, v) \<in> set self" by (rule map_of_SomeD)
    then have "k \<in> fst ` set self" by force
    with Some Cons.IH show ?thesis by (simp add: getattr_def)
  qed
qed

lemma jsonable_loop_missing:
  "jsonable_loop self keys acc = Inl e \<Longrightarrow> e = AttributeError"
  by (induction keys arbitrary: acc) (auto simp: getattr_def split: option.splits)

text \<open>
  C10. A Droid built by \<^verbatim>\<open>Droid(url, name, model)\<close>, and a Person built by
  \<^verbatim>\<open>Person(url, name, birth_year, force_sensitive)\<close>, on which no optional attribute was
  set, makes \<^verbatim>\<open>jsonable\<close> raise AttributeError; \<^verbatim>\<open>jsonable\<close> returns exactly when every
  key of its fixed list is an attribute of the instance.
\<close>

theorem jsonable_bare_instance_raises:
  "Droid_jsonable (Droid_init url name model) = Inl AttributeError
   \<and> Person_jsonable (Person_init purl pname birth_year force_sensitive) = Inl AttributeError
   \<and> ((\<exists>r. Droid_jsonable self = Inr r) \<longleftrightarrow> set Droid_keys \<subseteq> fst ` set self)
   \<and> ((\<exists>r. Person_jsonable self = Inr r) \<longleftrightarrow> set Person_keys \<subseteq> fst ` set self)"
proof -
  have d: "Droid_jsonable (Droid_init url name model) = Inl AttributeError"
    by (simp add: Droid_jsonable_def Droid_init_def Droid_keys_def getattr_def setitem_def)
  have p: "Person_jsonable (Person_init purl pname birth_year force_sensitive) = Inl AttributeError"
    by (simp add: Person_jsonable_def Person_init_def Person_keys_def getattr_def setitem_def)
  show ?thesis
    using d p jsonable_loop_ok_iff [of self Droid_keys "[]"]
      jsonable_loop_ok_iff [of self Person_keys "[]"]
    by (simp only: Droid_jsonable_def Person_jsonable_def simp_thms)
qed

theorem jsonable_bare_instance_raises_witness:
  "Droid_jsonable (Droid_init (PStr ''u'') (PStr ''R2-D2'') (PStr ''astromech'')) = Inl AttributeError
   \<and> Person_jsonable (Person_init (PStr ''u'') (PStr ''Yoda'') PNone (PBool True)) = Inl AttributeError
   \<and> \<not> set Droid_keys \<subseteq> fst ` set (Droid_init (PStr ''u'') (PStr ''R2-D2'') (PStr ''astromech''))"
  using jsonable_bare_instance_raises
    [of "PStr ''u''" "PStr ''R2-D2''" "PStr ''astromech''" "PStr ''u''" "PStr ''Yoda''" PNone
      "PBool True" "Droid_init (PStr ''u'') (PStr ''R2-D2'') (PStr ''astromech'')"]
  by auto

section \<open>Counting episodes by director\<close>

lemma count_loop_step:
  assumes "director_ok ep" and "map_of ep ''episode_director'' = Some d0"
  shows "count_loop (ep # eps) acc = count_loop eps (AList.update d0 (base acc d0 + 1) acc)"
proof -
  from assms have g: "getitem ep ''episode_director'' = Inr d0" and h: "hashable d0"
    by (auto simp: director_ok_def getitem_def split: option.splits pyval.splits)
  show ?thesis
  proof (cases "map_of acc d0")
    case None
    then show ?thesis using g h by (simp add: base_def)
  next
    case (Some c)
    then show ?thesis using g h by (simp add: base_def)
  qed
qed

lemma directed_by_Cons:
  "directed_by d (ep # eps) =
     (if map_of ep ''episode_director'' = Some d then ep # directed_by d eps else directed_by d eps)"
  by (simp add: directed_by_def)

lemma count_loop_spec:
  assumes "\<forall>ep \<in> set eps. director_ok ep"
  shows "\<exists>r. count_loop eps acc = Inr r
           \<and> (distinct (map fst acc) \<longrightarrow> distinct (map fst r))
           \<and> (\<forall>d. map_of r d =
                 (if directed_by d eps = [] then map_of acc d
                  else Some (base acc d + int (length (directed_by d eps)))))"
  using assms
proof (induction eps arbitrary: acc)
  case Nil
  show ?case by (simp add: directed_by_def)
next
  case (Cons ep eps)
  from Cons.prems have ok: "director_ok ep" and rest: "\<forall>ep \<in> set eps. director_ok ep"
    by simp_all
  from ok obtain d0 where d0: "map_of ep ''episode_director'' = Some d0"
    by (auto simp: director_ok_def split: option.splits)
  define acc' where "acc' = AList.update d0 (base acc d0 + 1) acc"
  have step: "count_loop (ep # eps) acc = count_loop eps acc'"
    unfolding acc'_def by (rule count_loop_step [OF ok d0])
  from Cons.IH [OF rest, of acc'] obtain r where
    r1: "count_loop eps acc' = Inr r" and
    r2: "distinct (map fst acc') \<longrightarrow> distinct (map fst r)" and
    r3: "\<forall>d. map_of r d =
                 (if directed_by d eps = [] then map_of acc' d
                  else Some (base acc' d + int (length (directed_by d eps))))"
    by blast
  have m0: "map_of acc' d0 = Some (base acc d0 + 1)"
    by (simp add: acc'_def update_conv)
  have b0: "base acc' d0 = base acc d0 + 1"
    by (simp add: base_def m0)
  have m1: "d \<noteq> d0 \<Longrightarrow> map_of acc' d = map_of acc d" for d
    by (simp add: acc'_def update_conv)
  have b1: "d \<noteq> d0 \<Longrightarrow> base acc' d = base acc d" for d
    by (simp add: base_def m1)
  have 3: "map_of r d =
             (if directed_by d (ep # eps) = [] then map_of acc d
              else Some (base acc d + int (length (directed_by d (ep # eps)))))" for d
  proof (cases "d = d0")
    case True
    then show ?thesis using r3 [rule_format, of d0] d0 m0 b0
      by (simp add: directed_by_Cons)
  next
    case False
    then have "map_of ep ''episode_director'' \<noteq> Some d" using d0 by simp
    then show ?thesis using r3 [rule_format, of d] m1 [OF False] b1 [OF False]
      by (simp add: directed_by_Cons)
  qed
  have 2: "distinct (map fst acc) \<longrightarrow> distinct (map fst r)"
    using r2 by (simp add: acc'_def distinct_update)
  show ?case using step r1 2 3 by simp
qed

text \<open>
  C5. On a list of episodes whose director is a string or \<^verbatim>\<open>None\<close>,
  \<^verbatim>\<open>count_episodes_by_director\<close> returns a dictionary with no duplicate keys, whose keys are
  exactly the director values occurring in the list and whose value for a director is the
  number of episodes of the list with that director.
\<close>

theorem count_episodes_by_director_correct:
  assumes "\<forall>ep \<in> set episodes. director_ok ep"
  shows "\<exists>result. count_episodes_by_director episodes = Inr result
           \<and> distinct (map fst result)
           \<and> set (map fst result) = {d. \<exists>ep \<in> set episodes. map_of ep ''episode_director'' = Some d}
           \<and> (\<forall>d \<in> set (map fst result).
                 map_of result d = Some (int (length (directed_by d episodes))))"
proof -
  from count_loop_spec [OF assms, of "[]"] obtain r where
    r: "count_loop episodes [] = Inr r" "distinct (map fst r)"
       "\<forall>d. map_of r d = (if directed_by d episodes = [] then None
                            else Some (int (length (directed_by d episodes))))"
    by (auto simp: base_def)
  have keys: "set (map fst r) = {d. \<exists>ep \<in> set episodes. map_of ep ''episode_director'' = Some d}"
  proof -
    have "d \<in> set (map fst r) \<longleftrightarrow> directed_by d episodes \<noteq> []" for d
      using r(3) [rule_format, of d] by (metis map_of_eq_None_iff option.distinct(1) set_map)
    moreover have "directed_by d episodes \<noteq> [] \<longleftrightarrow>
        (\<exists>ep \<in> set episodes. map_of ep ''episode_director'' = Some d)" for d
      by (auto simp: directed_by_def filter_empty_conv)
    ultimately show ?thesis by blast
  qed
  have vals: "\<forall>d \<in> set (map fst r). map_of r d = Some (int (length (directed_by d episodes)))"
  proof
    fix d assume "d \<in> set (map fst r)"
    then have "map_of r d \<noteq> None" by (simp add: map_of_eq_None_iff)
    with r(3) [rule_format, of d] show "map_of r d = Some (int (length (directed_by d episodes)))"
      by (auto split: if_splits)
  qed
  show ?thesis using r(1,2) keys vals by (auto simp: count_episodes_by_director_def)
qed



theorem count_episodes_by_director_correct_witness:
  "list_all director_ok [ep_a, ep_b, ep_c]
   \<and> count_episodes_by_director [ep_a, ep_b, ep_c]
       = Inr [(PStr ''Dave Bullock'', 2), (PStr ''Dave Filoni'', 1)]
   \<and> length (directed_by (PStr ''Dave Bullock'') [ep_a, ep_b, ep_c]) = 2"
  using count_episodes_by_director_correct [of "[ep_a, ep_b, ep_c]"]
  by (simp add: director_ok_def count_episodes_by_director_def directed_by_def
      ep_a_def ep_b_def ep_c_def getitem_def)

section \<open>Viewership scans\<close>

text \<open>
  C1. The first episode has no viewership value and a later one has: the scan compares the
  later float with \<^verbatim>\<open>maxi\<close>, which is still \<^verbatim>\<open>None\<close>, and raises TypeError instead of
  returning the later episode.
\<close>

theorem get_most_viewed_episode_first_without_data:
  "get_most_viewed_episode E [ep_none, ep_two] = Inl TypeError"
  by (simp add: get_most_viewed_episode_def has_viewer_data_def getitem_def float_gt_def
      convert_to_float_def ep_none_def ep_two_def)

text \<open>
  C2. The same list makes the scan for the least viewed episode raise TypeError.
\<close>

theorem get_least_viewed_episode_first_without_data:
  "get_least_viewed_episode E [ep_none, ep_two] = Inl TypeError"
  by (simp add: get_least_viewed_episode_def has_viewer_data_def getitem_def float_lt_def
      convert_to_float_def ep_none_def ep_two_def)

section \<open>Grouping episodes by writer\<close>

lemma is_str_hashable: "is_str w \<Longrightarrow> hashable w"
  by (cases w) simp_all

lemma group_inner_step:
  assumes "hashable w"
  shows "group_inner ep (w # ws) acc = group_inner ep ws (AList.update w (gbase acc w @ [ep]) acc)"
  using assms by (cases "map_of acc w") (simp_all add: gbase_def)

lemma group_inner_spec:
  assumes "list_all is_str ws"
  shows "\<exists>r. group_inner ep ws acc = Inr r
           \<and> (distinct (map fst acc) \<longrightarrow> distinct (map fst r))
           \<and> (\<forall>w. map_of r w =
                 (if count_list ws w = 0 then map_of acc w
                  else Some (gbase acc w @ replicate (count_list ws w) ep)))"
  using assms
proof (induction ws arbitrary: acc)
  case Nil
  show ?case by simp
next
  case (Cons w0 ws)
  from Cons.prems have h: "hashable w0" and rest: "list_all is_str ws"
    by (simp_all add: is_str_hashable)
  define acc' where "acc' = AList.update w0 (gbase acc w0 @ [ep]) acc"
  have step: "group_inner ep (w0 # ws) acc = group_inner ep ws acc'"
    unfolding acc'_def by (rule group_inner_step [OF h])
  from Cons.IH [OF rest, of acc'] obtain r where
    r1: "group_inner ep ws acc' = Inr r" and
    r2: "distinct (map fst acc') \<longrightarrow> distinct (map fst r)" and
    r3: "\<forall>w. map_of r w =
                 (if count_list ws w = 0 then map_of acc' w
                  else Some (gbase acc' w @ replicate (count_list ws w) ep))"
    by blast
  have m0: "map_of acc' w0 = Some (gbase acc w0 @ [ep])"
    by (simp add: acc'_def update_conv)
  have b0: "gbase acc' w0 = gbase acc w0 @ [ep]"
    by (simp add: gbase_def m0)
  have m1: "w \<noteq> w0 \<Longrightarrow> map_of acc' w = map_of acc w" for w
    by (simp add: acc'_def update_conv)
  have b1: "w \<noteq> w0 \<Longrightarrow> gbase acc' w = gbase acc w" for w
    by (simp add: gbase_def m1)
  have 3: "map_of r w =
             (if count_list (w0 # ws) w = 0 then map_of acc w
              else Some (gbase acc w @ replicate (count_list (w0 # ws) w) ep))" for w
  proof (cases "w = w0")
    case True
    then show ?thesis using r3 [rule_format, of w0] m0 b0
      by (simp add: replicate_app_Cons_same)
  next
    case False
    then show ?thesis using r3 [rule_format, of w] m1 [OF False] b1 [OF False]
      by simp
  qed
  have 2: "distinct (map fst acc) \<longrightarrow> distinct (map fst r)"
    using r2 by (simp add: acc'_def distinct_update)
  show ?case using step r1 2 3 by simp
qed

lemma credits_Cons:
  "credits w (ep # eps) = replicate (count_list (writers_of ep) w) ep @ credits w eps"
  by (simp add: credits_def)

lemma group_loop_spec:
  assumes "\<forall>ep \<in> set eps. writers_ok ep"
  shows "\<exists>r. group_loop eps acc = Inr r
           \<and> (distinct (map fst acc) \<longrightarrow> distinct (map fst r))
           \<and> (\<forall>w. map_of r w =
                 (if credits w eps = [] then map_of acc w
                  else Some (gbase acc w @ credits w eps)))"
  using assms
proof (induction eps arbitrary: acc)
  case Nil
  show ?case by (simp add: credits_def)
next
  case (Cons ep eps)
  from Cons.prems have ok: "writers_ok ep" and rest: "\<forall>ep \<in> set eps. writers_ok ep"
    by simp_all
  from ok obtain ws where ws: "map_of ep ''episode_writers'' = Some (PList ws)"
    and strs: "list_all is_str ws"
    by (auto simp: writers_ok_def split: option.splits pyval.splits)
  have wo: "writers_of ep = ws" by (simp add: writers_of_def ws)
  from group_inner_spec [OF strs, of ep acc] obtain acc' where
    i1: "group_inner ep ws acc = Inr acc'" and
    i2: "distinct (map fst acc) \<longrightarrow> distinct (map fst acc')" and
    i3: "\<forall>w. map_of acc' w =
                 (if count_list ws w = 0 then map_of acc w
                  else Some (gbase acc w @ replicate (count_list ws w) ep))"
    by blast
  have step: "group_loop (ep # eps) acc = group_loop eps acc'"
    by (simp add: getitem_def ws i1)
  from Cons.IH [OF rest, of acc'] obtain r where
    r1: "group_loop eps acc' = Inr r" and
    r2: "distinct (map fst acc') \<longrightarrow> distinct (map fst r)" and
    r3: "\<forall>w. map_of r w =
                 (if credits w eps = [] then map_of acc' w
                  else Some (gbase acc' w @ credits w eps))"
    by blast
  have b: "gbase acc' w = gbase acc w @ replicate (count_list ws w) ep" for w
    using i3 [rule_format, of w] by (simp add: gbase_def)
  have 3: "map_of r w =
             (if credits w (ep # eps) = [] then map_of acc w
              else Some (gbase acc w @ credits w (ep # eps)))" for w
    using r3 [rule_format, of w] i3 [rule_format, of w] b [of w]
    by (simp add: credits_Cons wo)
  show ?case using step r1 r2 i2 3 by simp
qed

lemma count_list_distinct:
  "distinct xs \<Longrightarrow> count_list xs x = (if x \<in> set xs then 1 else 0)"
  by (induction xs) auto

lemma credits_empty_iff:
  "credits w eps = [] \<longleftrightarrow> (\<forall>ep \<in> set eps. w \<notin> set (writers_of ep))"
  by (induction eps) (simp_all add: credits_def count_list_0_iff)

lemma credits_distinct:
  assumes "\<forall>ep \<in> set eps. distinct (writers_of ep)"
  shows "credits w eps = written_by w eps"
  using assms
proof (induction eps)
  case Nil
  show ?case by (simp add: credits_def written_by_def)
next
  case (Cons ep eps)
  then have d: "distinct (writers_of ep)" and IH: "credits w eps = written_by w eps"
    by simp_all
  have "count_list (writers_of ep) w = (if w \<in> set (writers_of ep) then 1 else 0)"
    using d by (rule count_list_distinct)
  then show ?case using IH by (simp add: credits_Cons written_by_def)
qed

text \<open>
  C6, as stated, fails on an episode that lists a writer twice: the episode is appended once
  per occurrence.
\<close>

theorem group_episodes_by_writer_repeats:
  "writers_ok ep_dup
   \<and> group_episodes_by_writer [ep_dup] = Inr [(PStr ''Steven Melching'', [ep_dup, ep_dup])]
   \<and> written_by (PStr ''Steven Melching'') [ep_dup] = [ep_dup]"
  by (simp add: group_episodes_by_writer_def getitem_def writers_ok_def written_by_def
      writers_of_def ep_dup_def)

text \<open>
  C6, amended. On episodes whose \<^verbatim>\<open>episode_writers\<close> values are lists of writer names,
  \<^verbatim>\<open>group_episodes_by_writer\<close> returns a dictionary with no duplicate keys, whose keys are
  exactly the writer names occurring in some episode, and whose value for a writer lists, in
  episode order, the episodes crediting that writer, each once per occurrence of the name
  among its writers; when no episode repeats a name, this is the list of exactly the episodes
  whose writers contain that writer.
\<close>

theorem group_episodes_by_writer_correct:
  assumes "\<forall>ep \<in> set episodes. writers_ok ep"
  shows "\<exists>result. group_episodes_by_writer episodes = Inr result
           \<and> distinct (map fst result)
           \<and> set (map fst result) = {w. \<exists>ep \<in> set episodes. w \<in> set (writers_of ep)}
           \<and> (\<forall>w \<in> set (map fst result). map_of result w = Some (credits w episodes))
           \<and> ((\<forall>ep \<in> set episodes. distinct (writers_of ep)) \<longrightarrow>
                (\<forall>w \<in> set (map fst result). map_of result w = Some (written_by w episodes)))"
proof -
  from group_loop_spec [OF assms, of "[]"] obtain r where
    r1: "group_loop episodes [] = Inr r" and r2: "distinct (map fst r)" and
    r3: "\<forall>w. map_of r w = (if credits w episodes = [] then None
                            else Some (credits w episodes))"
    by (auto simp: gbase_def)
  have mem: "w \<in> set (map fst r) \<longleftrightarrow> credits w episodes \<noteq> []" for w
    using r3 [rule_format, of w] by (metis map_of_eq_None_iff option.distinct(1) set_map)
  have keys: "set (map fst r) = {w. \<exists>ep \<in> set episodes. w \<in> set (writers_of ep)}"
    using mem by (auto simp: credits_empty_iff)
  have vals: "\<forall>w \<in> set (map fst r). map_of r w = Some (credits w episodes)"
    using mem r3 by simp
  have vals': "(\<forall>ep \<in> set episodes. distinct (writers_of ep)) \<longrightarrow>
                (\<forall>w \<in> set (map fst r). map_of r w = Some (written_by w episodes))"
    using vals by (simp add: credits_distinct)
  show ?thesis
    unfolding group_episodes_by_writer_def using r1 r2 keys vals vals' by blast
qed

theorem group_episodes_by_writer_correct_witness:
  "list_all writers_ok [ep_w1, ep_w2]
   \<and> list_all (\<lambda>ep. distinct (writers_of ep)) [ep_w1, ep_w2]
   \<and> group_episodes_by_writer [ep_w1, ep_w2]
       = Inr [(PStr ''Steven Melching'', [ep_w1]), (PStr ''Henry Gilroy'', [ep_w1, ep_w2])]
   \<and> written_by (PStr ''Henry Gilroy'') [ep_w1, ep_w2] = [ep_w1, ep_w2]"
  using group_episodes_by_writer_correct [of "[ep_w1, ep_w2]"]
  by (simp add: group_episodes_by_writer_def getitem_def writers_ok_def written_by_def
      writers_of_def ep_w1_def ep_w2_def)



section \<open>The loops of the factory functions\<close>

lemma map_of_setitem: "map_of (setitem d k v) k' = (if k' = k then Some v else map_of d k')"
  by (simp add: setitem_def update_conv)

lemma convert_loop_other:
  "convert_loop f keys data = Inr data' \<Longrightarrow> k \<notin> set keys \<Longrightarrow> map_of data' k = map_of data k"
proof (induction keys arbitrary: data)
  case Nil
  then show ?case by simp
next
  case (Cons key keys)
  from Cons.prems(1) obtain v v' where
    v: "getitem data key = Inr v" and v': "f key v = Inr v'" and
    rest: "convert_loop f keys (setitem data key v') = Inr data'"
    by (auto split: sum.splits)
  from Cons.prems(2) have "k \<noteq> key" and "k \<notin> set keys" by auto
  with Cons.IH [OF rest] show ?case by (simp add: map_of_setitem)
qed

lemma convert_loop_key:
  "convert_loop f keys data = Inr data' \<Longrightarrow> distinct keys \<Longrightarrow> k \<in> set keys \<Longrightarrow>
     \<exists>v v'. map_of data k = Some v \<and> f k v = Inr v' \<and> map_of data' k = Some v'"
proof (induction keys arbitrary: data)
  case Nil
  then show ?case by simp
next
  case (Cons key keys)
  from Cons.prems(1) obtain v v' where
    v: "getitem data key = Inr v" and v': "f key v = Inr v'" and
    rest: "convert_loop f keys (setitem data key v') = Inr data'"
    by (auto split: sum.splits)
  from Cons.prems(2) have nk: "key \<notin> set keys" and dk: "distinct keys" by auto
  show ?case
  proof (cases "k = key")
    case True
    from v have "map_of data key = Some v"
      by (auto simp: getitem_def split: option.splits)
    moreover have "map_of data' key = Some v'"
      using convert_loop_other [OF rest nk] by (simp add: map_of_setitem)
    ultimately show ?thesis using True v' by blast
  next
    case False
    with Cons.prems(3) have "k \<in> set keys" by simp
    from Cons.IH [OF rest dk this] False show ?thesis by (simp add: map_of_setitem)
  qed
qed

lemma assign_loop_raises:
  "k \<in> set keys \<Longrightarrow> (\<And>obj. \<exists>e. body k obj = Inl e) \<Longrightarrow> \<exists>e. assign_loop body keys obj = Inl e"
proof (induction keys arbitrary: obj)
  case Nil
  then show ?case by simp
next
  case (Cons key keys)
  show ?case
  proof (cases "body key obj")
    case (Inl e)
    then show ?thesis by simp
  next
    case (Inr obj')
    have "key \<noteq> k"
    proof
      assume "key = k"
      with Cons.prems(2) [of obj] Inr show False by auto
    qed
    with Cons.prems(1) have "k \<in> set keys" by simp
    from Cons.IH [OF this Cons.prems(2), of obj'] Inr show ?thesis by simp
  qed
qed

section \<open>create_person without planets\<close>

lemma homeworld_None: "\<exists>e. homeworld E None v = Inl e"
  by (cases "get_swapi_resource E v") (simp_all add: homeworld_def planets_12_def)

lemma person_assign_homeworld_None: "\<exists>e. person_assign E None data ''homeworld'' person = Inl e"
proof (cases "getitem data ''homeworld''")
  case (Inl e)
  then show ?thesis by (simp add: person_assign_def)
next
  case (Inr v)
  from homeworld_None [of E v] obtain e where "homeworld E None v = Inl e" by blast
  with Inr show ?thesis by (simp add: person_assign_def)
qed

text \<open>
  C8. Called with the default \<^verbatim>\<open>planets=None\<close>, \<^verbatim>\<open>create_person\<close> raises for every input
  dictionary (so also for those whose homeworld is not converted to \<^verbatim>\<open>None\<close>): the
  homeworld branch is reached for the key itself and indexes \<^verbatim>\<open>planets[12]\<close>. When the
  lookup returns, the exception of the homeworld branch is the TypeError of
  \<^verbatim>\<open>None[12]\<close>.
\<close>

theorem create_person_default_planets_raises:
  "(\<exists>e. create_person E data None = Inl e)
   \<and> (case get_swapi_resource E v of Inl e \<Rightarrow> True | Inr t \<Rightarrow> homeworld E None v = Inl TypeError)"
proof -
  have "\<exists>e. assign_loop (person_assign E None d) create_person_keys obj = Inl e" for d obj
    by (rule assign_loop_raises [where k = "''homeworld''"])
      (simp_all add: create_person_keys_def person_assign_homeworld_None)
  then have 1: "\<exists>e. create_person E data None = Inl e"
    by (simp add: create_person_def split: sum.splits)
  have 2: "(case get_swapi_resource E v of Inl e \<Rightarrow> True | Inr t \<Rightarrow> homeworld E None v = Inl TypeError)"
    by (simp add: homeworld_def planets_12_def split: sum.splits)
  show ?thesis using 1 2 by blast
qed

section \<open>create_starship and the built-in int\<close>

lemma starship_assign_cargo_None:
  assumes "map_of data ''cargo_capacity'' = Some PNone"
  shows "starship_assign E data ''cargo_capacity'' starship = Inl TypeError"
  using assms by (simp add: starship_assign_def getitem_def)

text \<open>
  C3. A starship row whose cargo capacity is a placeholder (a value that
  \<^verbatim>\<open>convert_to_none\<close> turns into \<^verbatim>\<open>None\<close>) makes \<^verbatim>\<open>create_starship\<close> raise: the second
  loop calls the built-in \<^verbatim>\<open>int\<close> on the \<^verbatim>\<open>None\<close>.
\<close>

theorem create_starship_placeholder_raises:
  assumes "map_of data ''cargo_capacity'' = Some v" and "convert_to_none E v = PNone"
  shows "\<exists>e. create_starship E data = Inl e"
proof (cases "convert_loop (starship_field E) create_starship_keys data")
  case (Inl e)
  then show ?thesis by (simp add: create_starship_def)
next
  case (Inr data')
  have d: "distinct create_starship_keys" by (simp add: create_starship_keys_def)
  have m: "''cargo_capacity'' \<in> set create_starship_keys" by (simp add: create_starship_keys_def)
  from convert_loop_key [OF Inr d m] assms have c: "map_of data' ''cargo_capacity'' = Some PNone"
    by (auto simp: starship_field_def)
  have "\<exists>e. assign_loop (starship_assign E data') create_starship_keys obj = Inl e" for obj
    by (rule assign_loop_raises [OF m]) (simp add: starship_assign_cargo_None [OF c])
  with Inr show ?thesis by (simp add: create_starship_def split: sum.splits)
qed

lemma none_like_unknown: "none_like sample_env ''unknown''"
  by (simp add: none_like_def sample_env_def strip_def lower_def lower_char_def is_space_def)

lemma create_starship_twilight: "create_starship sample_env twilight = Inl TypeError"
  by code_simp

lemma create_starship_text_speed:
  "create_starship sample_env (setitem twilight ''max_atmosphering_speed'' (PStr ''fast''))
     = Inl ValueError"
  by code_simp

theorem create_starship_placeholder_raises_witness:
  "map_of twilight ''cargo_capacity'' = Some (PStr ''unknown'')
   \<and> convert_to_none sample_env (PStr ''unknown'') = PNone
   \<and> create_starship sample_env twilight = Inl TypeError"
  using create_starship_placeholder_raises [of twilight "PStr ''unknown''" sample_env]
    create_starship_twilight
  by (simp add: none_like_unknown twilight_def)



section \<open>create_planet\<close>

lemma has_keys_setitem: "has_keys keys data \<Longrightarrow> has_keys keys (setitem data k v)"
  by (simp add: has_keys_def list_all_iff map_of_setitem)

lemma convert_loop_total:
  "has_keys keys data \<Longrightarrow> \<exists>data'. convert_loop (\<lambda>key v. Inr (g key v)) keys data = Inr data'"
proof (induction keys arbitrary: data)
  case Nil
  show ?case by simp
next
  case (Cons key keys)
  from Cons.prems obtain v where v: "map_of data key = Some v" and rest: "has_keys keys data"
    by (auto simp: has_keys_def)
  from Cons.IH [OF has_keys_setitem [OF rest], of key "g key v"] v
  show ?case by (simp add: getitem_def)
qed

lemma int_fieldD:
  "int_field E data key n \<Longrightarrow>
     \<exists>s. map_of data key = Some (PStr s) \<and> \<not> none_like E s \<and> int_of_str E s = Some n"
  by (auto simp: int_field_def split: option.splits pyval.splits)

lemma float_fieldD:
  "float_field E data key x \<Longrightarrow>
     \<exists>s. map_of data key = Some (PStr s) \<and> \<not> none_like E s \<and> float_of_str E s = Some x"
  by (auto simp: float_field_def split: option.splits pyval.splits)

lemma planet_field_int:
  assumes "key = ''suns'' \<or> key = ''moons'' \<or> key = ''diameter'' \<or> key = ''population''"
    and "\<not> none_like E s" and "int_of_str E s = Some n"
  shows "planet_field E key (PStr s) = PInt n"
  using assms by (auto simp: planet_field_def convert_to_int_def)

lemma planet_field_list:
  assumes "key = ''climate'' \<or> key = ''terrain''" and "\<not> none_like E s"
  shows "planet_field E key (PStr s) = PList (map PStr (split_go '', '' [] s))"
  using assms by (auto simp: planet_field_def py_split_def)

lemma planet_field_orbital:
  assumes "\<not> none_like E s"
  shows "planet_field E ''orbital_period'' (PStr s) = PStr s"
  using assms by (simp add: planet_field_def)

lemma planet_field_gravity:
  assumes "\<not> none_like E s"
  shows "planet_field E ''gravity'' (PStr s) = convert_gravity_value E (PStr s)"
  using assms by (simp add: planet_field_def)

lemma create_planet_result:
  assumes "has_keys create_planet_keys data"
  shows "\<exists>data'. convert_loop (\<lambda>key v. Inr (planet_field E key v)) create_planet_keys data = Inr data'
      \<and> create_planet E data = Inr
        [(''url'', planet_field E ''url'' (the (map_of data ''url''))),
         (''name'', planet_field E ''name'' (the (map_of data ''name''))),
         (''region'', planet_field E ''region'' (the (map_of data ''region''))),
         (''sector'', planet_field E ''sector'' (the (map_of data ''sector''))),
         (''suns'', planet_field E ''suns'' (the (map_of data ''suns''))),
         (''moons'', planet_field E ''moons'' (the (map_of data ''moons''))),
         (''orbital_period_days'',
            convert_to_float E (planet_field E ''orbital_period'' (the (map_of data ''orbital_period'')))),
         (''diameter_km'', planet_field E ''diameter'' (the (map_of data ''diameter''))),
         (''gravity_std'', planet_field E ''gravity'' (the (map_of data ''gravity''))),
         (''climate'', planet_field E ''climate'' (the (map_of data ''climate''))),
         (''terrain'', planet_field E ''terrain'' (the (map_of data ''terrain''))),
         (''population'', planet_field E ''population'' (the (map_of data ''population'')))]"
proof -
  from convert_loop_total [OF assms] obtain data' where
    d: "convert_loop (\<lambda>key v. Inr (planet_field E key v)) create_planet_keys data = Inr data'"
    by blast
  have dk: "distinct create_planet_keys" by (simp add: create_planet_keys_def)
  have look: "getitem data' k = Inr (planet_field E k (the (map_of data k)))"
    if "k \<in> set create_planet_keys" for k
    using convert_loop_key [OF d dk that] by (auto simp: getitem_def)
  have ks: "''url'' \<in> set create_planet_keys" "''name'' \<in> set create_planet_keys"
    "''region'' \<in> set create_planet_keys" "''sector'' \<in> set create_planet_keys"
    "''suns'' \<in> set create_planet_keys" "''moons'' \<in> set create_planet_keys"
    "''orbital_period'' \<in> set create_planet_keys" "''diameter'' \<in> set create_planet_keys"
    "''gravity'' \<in> set create_planet_keys" "''climate'' \<in> set create_planet_keys"
    "''terrain'' \<in> set create_planet_keys" "''population'' \<in> set create_planet_keys"
    by (simp_all add: create_planet_keys_def)
  note looks = ks [THEN look]
  show ?thesis
    using d
    by (simp add: create_planet_def looks)
      (simp add: create_planet_keys_def planet_assign_def looks setattr_def Planet_init_def)
qed


text \<open>
  C7. For a source dictionary that has the expected planet keys, with convertible strings in
  the typed fields, \<^verbatim>\<open>create_planet\<close> returns a Planet whose \<^verbatim>\<open>suns\<close>, \<^verbatim>\<open>moons\<close>,
  \<^verbatim>\<open>diameter_km\<close> and \<^verbatim>\<open>population\<close> are the parsed ints, whose \<^verbatim>\<open>orbital_period_days\<close> is
  the parsed float, whose \<^verbatim>\<open>gravity_std\<close> is the converted gravity value and whose
  \<^verbatim>\<open>climate\<close> and \<^verbatim>\<open>terrain\<close> are the lists obtained by splitting on \<^verbatim>\<open>', '\<close>.
\<close>

theorem create_planet_field_types:
  assumes keys: "has_keys create_planet_keys data"
    and suns: "int_field E data ''suns'' n_suns"
    and moons: "int_field E data ''moons'' n_moons"
    and diameter: "int_field E data ''diameter'' n_diameter"
    and population: "int_field E data ''population'' n_population"
    and orbital: "float_field E data ''orbital_period'' x"
    and gravity: "str_field E data ''gravity'' g"
    and climate: "str_field E data ''climate'' c"
    and terrain: "str_field E data ''terrain'' t"
  shows "\<exists>planet. create_planet E data = Inr planet
           \<and> map fst planet = Planet_keys
           \<and> map_of planet ''suns'' = Some (PInt n_suns)
           \<and> map_of planet ''moons'' = Some (PInt n_moons)
           \<and> map_of planet ''diameter_km'' = Some (PInt n_diameter)
           \<and> map_of planet ''population'' = Some (PInt n_population)
           \<and> map_of planet ''orbital_period_days'' = Some (PFloat x)
           \<and> map_of planet ''gravity_std'' = Some (convert_gravity_value E (PStr g))
           \<and> map_of planet ''climate'' = Some (PList (map PStr (split_go '', '' [] c)))
           \<and> map_of planet ''terrain'' = Some (PList (map PStr (split_go '', '' [] t)))"
proof -
  from int_fieldD [OF suns] have 1: "planet_field E ''suns'' (the (map_of data ''suns'')) = PInt n_suns"
    by (auto simp: planet_field_int)
  from int_fieldD [OF moons] have 2: "planet_field E ''moons'' (the (map_of data ''moons'')) = PInt n_moons"
    by (auto simp: planet_field_int)
  from int_fieldD [OF diameter]
  have 3: "planet_field E ''diameter'' (the (map_of data ''diameter'')) = PInt n_diameter"
    by (auto simp: planet_field_int)
  from int_fieldD [OF population]
  have 4: "planet_field E ''population'' (the (map_of data ''population'')) = PInt n_population"
    by (auto simp: planet_field_int)
  from float_fieldD [OF orbital]
  have 5: "convert_to_float E (planet_field E ''orbital_period'' (the (map_of data ''orbital_period'')))
             = PFloat x"
    by (auto simp: planet_field_orbital convert_to_float_def)
  from gravity
  have 6: "planet_field E ''gravity'' (the (map_of data ''gravity'')) = convert_gravity_value E (PStr g)"
    by (simp add: str_field_def planet_field_gravity)
  from climate
  have 7: "planet_field E ''climate'' (the (map_of data ''climate''))
             = PList (map PStr (split_go '', '' [] c))"
    by (simp add: str_field_def planet_field_list)
  from terrain
  have 8: "planet_field E ''terrain'' (the (map_of data ''terrain''))
             = PList (map PStr (split_go '', '' [] t))"
    by (simp add: str_field_def planet_field_list)
  from create_planet_result [OF keys, of E] obtain planet where
    p: "create_planet E data = Inr planet" and
    q: "planet =
        [(''url'', planet_field E ''url'' (the (map_of data ''url''))),
         (''name'', planet_field E ''name'' (the (map_of data ''name''))),
         (''region'', planet_field E ''region'' (the (map_of data ''region''))),
         (''sector'', planet_field E ''sector'' (the (map_of data ''sector''))),
         (''suns'', planet_field E ''suns'' (the (map_of data ''suns''))),
         (''moons'', planet_field E ''moons'' (the (map_of data ''moons''))),
         (''orbital_period_days'',
            convert_to_float E (planet_field E ''orbital_period'' (the (map_of data ''orbital_period'')))),
         (''diameter_km'', planet_field E ''diameter'' (the (map_of data ''diameter''))),
         (''gravity_std'', planet_field E ''gravity'' (the (map_of data ''gravity''))),
         (''climate'', planet_field E ''climate'' (the (map_of data ''climate''))),
         (''terrain'', planet_field E ''terrain'' (the (map_of data ''terrain''))),
         (''population'', planet_field E ''population'' (the (map_of data ''population'')))]"
    by blast
  have k: "map fst planet = Planet_keys" by (simp add: q Planet_keys_def)
  have a: "map_of planet ''suns'' = Some (PInt n_suns)" by (simp add: q 1)
  have b: "map_of planet ''moons'' = Some (PInt n_moons)" by (simp add: q 2)
  have c: "map_of planet ''diameter_km'' = Some (PInt n_diameter)" by (simp add: q 3)
  have d: "map_of planet ''population'' = Some (PInt n_population)" by (simp add: q 4)
  have e: "map_of planet ''orbital_period_days'' = Some (PFloat x)" by (simp add: q 5)
  have f: "map_of planet ''gravity_std'' = Some (convert_gravity_value E (PStr g))" by (simp add: q 6)
  have g: "map_of planet ''climate'' = Some (PList (map PStr (split_go '', '' [] c)))"
    by (simp add: q 7)
  have h: "map_of planet ''terrain'' = Some (PList (map PStr (split_go '', '' [] t)))"
    by (simp add: q 8)
  show ?thesis using p k a b c d e f g h by blast
qed

lemma create_planet_tatooine:
  "create_planet sample_env tatooine = Inr
     [(''url'', PStr ''u''), (''name'', PStr ''Tatooine''), (''region'', PStr ''Outer Rim''),
      (''sector'', PStr ''Arkanis''), (''suns'', PInt 2), (''moons'', PInt 3),
      (''orbital_period_days'', PFloat 304), (''diameter_km'', PInt 10465),
      (''gravity_std'', PStr ''1 standard''),
      (''climate'', PList [PStr ''arid'', PStr ''hot'']),
      (''terrain'', PList [PStr ''desert'']), (''population'', PInt 200000)]"
  by code_simp

lemma tatooine_fields:
  "has_keys create_planet_keys tatooine"
  "int_field sample_env tatooine ''suns'' 2"
  "int_field sample_env tatooine ''moons'' 3"
  "int_field sample_env tatooine ''diameter'' 10465"
  "int_field sample_env tatooine ''population'' 200000"
  "float_field sample_env tatooine ''orbital_period'' 304"
  "str_field sample_env tatooine ''gravity'' ''1 standard''"
  "str_field sample_env tatooine ''climate'' ''arid, hot''"
  "str_field sample_env tatooine ''terrain'' ''desert''"
  by code_simp+

theorem create_planet_field_types_witness:
  "has_keys create_planet_keys tatooine
   \<and> int_field sample_env tatooine ''suns'' 2
   \<and> int_field sample_env tatooine ''moons'' 3
   \<and> int_field sample_env tatooine ''diameter'' 10465
   \<and> int_field sample_env tatooine ''population'' 200000
   \<and> float_field sample_env tatooine ''orbital_period'' 304
   \<and> str_field sample_env tatooine ''gravity'' ''1 standard''
   \<and> str_field sample_env tatooine ''climate'' ''arid, hot''
   \<and> str_field sample_env tatooine ''terrain'' ''desert''
   \<and> create_planet sample_env tatooine = Inr
        [(''url'', PStr ''u''), (''name'', PStr ''Tatooine''), (''region'', PStr ''Outer Rim''),
         (''sector'', PStr ''Arkanis''), (''suns'', PInt 2), (''moons'', PInt 3),
         (''orbital_period_days'', PFloat 304), (''diameter_km'', PInt 10465),
         (''gravity_std'', PStr ''1 standard''),
         (''climate'', PList [PStr ''arid'', PStr ''hot'']),
         (''terrain'', PList [PStr ''desert'']), (''population'', PInt 200000)]"
  using create_planet_field_types [OF tatooine_fields] create_planet_tatooine tatooine_fields
  by simp

end
